theory Spec2Isabelle
  imports Main
begin

section \<open>k8s\_log: resolving a resource to the log of one Pod\<close>

text \<open>
  A shallow embedding of \<^verbatim>\<open>plugins/modules/k8s_log.py\<close>: the two methods
  \<^verbatim>\<open>KubernetesLogModule.execute_module\<close> and
  \<^verbatim>\<open>KubernetesLogModule.extract_selectors\<close>. The cluster is a record of
  read-only collaborators; every call made to it is written to a trace, so that
  statements about which calls an invocation performs can be proved.
\<close>

subsection \<open>Python strings\<close>

text \<open>\<^verbatim>\<open>sep.join(xs)\<close> for a list of strings.\<close>

fun join :: "string \<Rightarrow> string list \<Rightarrow> string" where
  "join sep [] = []"
| "join sep [x] = x"
| "join sep (x # y # ys) = x @ sep @ join sep (y # ys)"

text \<open>
  \<^verbatim>\<open>s.split(c)\<close> for a separator of one character: the result has one more
  element than \<open>s\<close> has separators, so it is never empty.
\<close>

fun split :: "char \<Rightarrow> string \<Rightarrow> string list" where
  "split c [] = [[]]"
| "split c (x # xs) =
     (if x = c then [] # split c xs
      else (case split c xs of
              [] \<Rightarrow> [[x]]
            | w # ws \<Rightarrow> (x # w) # ws))"

text \<open>
  \<^verbatim>\<open>s.lower()\<close> on ASCII text: the letters A to Z move to a to z, every
  other byte stays. (Operator names of the Kubernetes API are ASCII.)
\<close>

definition lower_char :: "char \<Rightarrow> char" where
  "lower_char c =
     (let n = (of_char c :: nat)
      in if 65 \<le> n \<and> n \<le> 90 then char_of (n + 32) else c)"

definition lower :: "string \<Rightarrow> string" where
  "lower s = map lower_char s"

text \<open>
  How \<^verbatim>\<open>str.format\<close> renders a value that is a string or \<^verbatim>\<open>None\<close>.
\<close>

fun fmt :: "string option \<Rightarrow> string" where
  "fmt None = ''None''"
| "fmt (Some s) = s"

text \<open>Truth value of a value that is a string or \<^verbatim>\<open>None\<close>.\<close>

fun truthy :: "string option \<Rightarrow> bool" where
  "truthy None = False"
| "truthy (Some s) = (s \<noteq> [])"

subsection \<open>Failures\<close>

text \<open>
  Modelled from the spec: \<^verbatim>\<open>self.fail(msg=...)\<close> is inherited from
  \<^verbatim>\<open>KubernetesAnsibleModule\<close> (module\_utils/common.py). It ends the
  invocation with a failure result that carries the message; no statement after it runs
  (spec, sections 7 and 9). It is the constructor \<open>Fail\<close>.

  The other constructors are the ways the invocation can end that the source does not
  write down as \<^verbatim>\<open>self.fail\<close>: an exception of the Python run time
  (\<open>TypeError\<close>, \<open>AttributeError\<close>), a resource type the cluster
  does not know (\<^verbatim>\<open>find_resource(..., fail=True)\<close>), and a failure of a
  collaborator, whose message is passed on.
\<close>

datatype error =
    Fail string
  | TypeError
  | AttributeError
  | ResourceTypeError string string
  | UpstreamError string

subsection \<open>Data model\<close>

text \<open>The module parameters, with the defaults of \<^verbatim>\<open>argspec\<close> filled in.\<close>

record params =
  kind :: string
  api_version :: string
  name :: "string option"
  namespace :: "string option"
  container :: "string option"
  label_selectors :: "string list"

text \<open>A resource type as API discovery describes it.\<close>

record descriptor =
  group_version :: string
  resource_kind :: string
  subresources :: "string list"

text \<open>
  One entry of \<^verbatim>\<open>matchExpressions\<close>; \<open>values_list\<close> is its attribute
  \<^verbatim>\<open>values\<close>.
\<close>

record expression =
  key :: string
  operator :: string
  values_list :: "string list"

text \<open>
  The selector object of a fetched instance, as the three reads the code makes of it:
  \<^item> \<open>entries\<close>: the pairs of \<^verbatim>\<open>dict(selector).items()\<close>, in iteration order;
  \<^item> \<open>matchLabels\<close>: the attribute of that name, \<open>None\<close> when the object has none,
    otherwise a mapping object given by its pairs in iteration order;
  \<^item> \<open>matchExpressions\<close>: the attribute of that name, \<open>None\<close> when the object has
    none, otherwise a list.
  The client hands a mapping of the fetched object over as an object of its own class,
  which defines neither \<^verbatim>\<open>__bool__\<close> nor \<^verbatim>\<open>__len__\<close>: such an
  object counts as true whatever it holds, and only a missing attribute
  (\<^verbatim>\<open>None\<close>) counts as false. A list stays a Python list and counts as true
  when it is not empty.
\<close>

record selector =
  entries :: "(string \<times> string) list"
  matchLabels :: "(string \<times> string) list option"
  matchExpressions :: "expression list option"

record instance_spec =
  selector :: "selector option"

record resource_instance =
  group :: "string option"
  apiVersion :: "string option"
  instance_kind :: "string option"
  spec :: "instance_spec option"

text \<open>An item of a Pod list: \<^verbatim>\<open>item.metadata.name\<close>.\<close>

record pod =
  metadata_name :: string

text \<open>The payload of \<^verbatim>\<open>exit_json\<close>.\<close>

record result =
  changed :: bool
  log :: string
  log_lines :: "string list"

subsection \<open>The cluster and the calls made to it\<close>

text \<open>
  The collaborators of section 6 of the spec, as the answers of one unchanging cluster:
  the client factory (\<open>Some msg\<close> when no client can be made), the descriptor lookup,
  get by name, list by label selector, and the fetch of the log subresource. Each answer
  is either a failure message or a value.
\<close>

record cluster =
  api_client :: "string option"
  resources :: "string \<Rightarrow> string \<Rightarrow> descriptor option"
  get_named :: "descriptor \<Rightarrow> string \<Rightarrow> string option \<Rightarrow> string + resource_instance"
  get_listed :: "descriptor \<Rightarrow> string option \<Rightarrow> string \<Rightarrow> string + pod list"
  log_fetch :: "descriptor \<Rightarrow> string option \<Rightarrow> string option \<Rightarrow> (string \<times> string) list \<Rightarrow> string + string"

datatype call =
    GetApiClient
  | FindResource string string
  | GetByName descriptor string "string option"
  | ListBySelector descriptor "string option" string
  | LogGet descriptor "string option" "string option" "(string \<times> string) list"

text \<open>
  A computation returns the calls it made, in order, and how it ended. \<open>seq\<close> is
  the semicolon of the source: the second statement runs only when the first did not
  fail, and the calls of both are kept.
\<close>

type_synonym 'a run = "call list \<times> (error + 'a)"

definition ret :: "'a \<Rightarrow> 'a run" where
  "ret x = ([], Inr x)"

definition fail :: "string \<Rightarrow> 'a run" where
  "fail msg = ([], Inl (Fail msg))"

definition raise :: "error \<Rightarrow> 'a run" where
  "raise e = ([], Inl e)"

fun seq :: "'a run \<Rightarrow> ('a \<Rightarrow> 'b run) \<Rightarrow> 'b run" where
  "seq (tr, Inl e) f = (tr, Inl e)"
| "seq (tr, Inr x) f = (case f x of (tr', r) \<Rightarrow> (tr @ tr', r))"

fun upstream :: "string + 'a \<Rightarrow> error + 'a" where
  "upstream (Inl msg) = Inl (UpstreamError msg)"
| "upstream (Inr x) = Inr x"

text \<open>\<^verbatim>\<open>self.get_api_client()\<close>\<close>

definition get_api_client :: "cluster \<Rightarrow> unit run" where
  "get_api_client c =
     ([GetApiClient],
      (case api_client c of Some msg \<Rightarrow> Inl (UpstreamError msg) | None \<Rightarrow> Inr ()))"

text \<open>
  Modelled from the spec: \<^verbatim>\<open>self.find_resource(kind, api_version, fail=True)\<close> is
  inherited (module\_utils/common.py). It asks the descriptor lookup and fails with a
  "resource not found" error when the cluster does not know the type (spec, 4.1 step 2).
\<close>

definition find_resource :: "cluster \<Rightarrow> string \<Rightarrow> string \<Rightarrow> descriptor run" where
  "find_resource c k v =
     ([FindResource k v],
      (case resources c k v of
         None \<Rightarrow> Inl (ResourceTypeError k v)
       | Some d \<Rightarrow> Inr d))"

text \<open>\<^verbatim>\<open>resource.get(name=..., namespace=...)\<close>\<close>

definition resource_get :: "cluster \<Rightarrow> descriptor \<Rightarrow> string \<Rightarrow> string option \<Rightarrow> resource_instance run" where
  "resource_get c resource n ns =
     ([GetByName resource n ns], upstream (get_named c resource n ns))"

text \<open>\<^verbatim>\<open>v1_pods.get(namespace=..., label_selector=...)\<close>, giving \<^verbatim>\<open>.items\<close>\<close>

definition resource_list :: "cluster \<Rightarrow> descriptor \<Rightarrow> string option \<Rightarrow> string \<Rightarrow> pod list run" where
  "resource_list c resource ns label_selector =
     ([ListBySelector resource ns label_selector],
      upstream (get_listed c resource ns label_selector))"

text \<open>
  \<^verbatim>\<open>resource.log.get(name=..., namespace=..., **kwargs)\<close>: reading the attribute
  \<^verbatim>\<open>log\<close> of a descriptor that has no such subresource raises before any call.
\<close>

definition resource_log_get ::
  "cluster \<Rightarrow> descriptor \<Rightarrow> string option \<Rightarrow> string option \<Rightarrow> (string \<times> string) list \<Rightarrow> string run" where
  "resource_log_get c resource n ns query_params =
     (if ''log'' \<notin> set (subresources resource) then raise AttributeError
      else ([LogGet resource n ns query_params],
            upstream (log_fetch c resource n ns query_params)))"

subsection \<open>extract\_selectors\<close>

text \<open>
  A positional argument of \<^verbatim>\<open>str.join\<close>: a value that is a string or
  \<^verbatim>\<open>None\<close>, or a list of strings. \<^verbatim>\<open>str.join\<close> takes exactly one
  argument, an iterable of strings (a string is the iterable of its characters); with
  any other number of arguments the call raises \<^verbatim>\<open>TypeError\<close>.
\<close>

datatype pyarg = ArgStr "string option" | ArgList "string list"

fun str_join :: "string \<Rightarrow> pyarg list \<Rightarrow> error + string" where
  "str_join sep [ArgList xs] = Inr (join sep xs)"
| "str_join sep [ArgStr (Some s)] = Inr (join sep (map (\<lambda>ch. [ch]) s))"
| "str_join sep [ArgStr None] = Inl TypeError"
| "str_join sep args = Inl TypeError"

text \<open>\<^verbatim>\<open>'{0}={1}'.format(k, v)\<close> for every pair of a mapping.\<close>

definition label_clauses :: "(string \<times> string) list \<Rightarrow> string list" where
  "label_clauses kvs = map (\<lambda>(k, v). k @ ''='' @ v) kvs"

text \<open>
  The loop over \<^verbatim>\<open>matchExpressions\<close>; \<open>selectors\<close> is the list built so far.
\<close>

fun expressions_loop :: "expression list \<Rightarrow> string list \<Rightarrow> error + string list" where
  "expressions_loop [] selectors = Inr selectors"
| "expressions_loop (expression # rest) selectors =
     (if operator expression = ''Exists'' then
        expressions_loop rest (selectors @ [key expression])
      else if operator expression = ''DoesNotExist'' then
        expressions_loop rest (selectors @ [''!'' @ key expression])
      else if operator expression \<in> set [''In'', ''NotIn''] then
        expressions_loop rest
          (selectors @
           [key expression @ '' '' @ lower (operator expression) @ '' '' @
            (''('' @ join '', '' (values_list expression) @ '')'')])
      else
        Inl (Fail (''The k8s_log module does not support the '' @
                   lower (operator expression) @ '' matchExpression operator'')))"

text \<open>Truth value of the two attributes of a selector object.\<close>

definition populated_labels :: "selector \<Rightarrow> bool" where
  "populated_labels s = (matchLabels s \<noteq> None)"

definition populated_expressions :: "selector \<Rightarrow> bool" where
  "populated_expressions s =
     (case matchExpressions s of None \<Rightarrow> False | Some es \<Rightarrow> es \<noteq> [])"

definition extract_selectors :: "resource_instance \<Rightarrow> error + string list" where
  "extract_selectors inst =
     (case spec inst of
        None \<Rightarrow> Inl AttributeError
      | Some sp \<Rightarrow>
          (case selector sp of
             None \<Rightarrow>
               (case str_join ''/'' [ArgStr (group inst), ArgStr (apiVersion inst)] of
                  Inl e \<Rightarrow> Inl e
                | Inr gv \<Rightarrow>
                    Inl (Fail (gv @ '' '' @ fmt (instance_kind inst) @
                      '' does not support the log subresource directly, and no Pod selector was found on the object'')))
           | Some s \<Rightarrow>
               if \<not> (populated_labels s \<or> populated_expressions s) then
                 Inr ([] @ label_clauses (entries s))
               else
                 (let selectors =
                        (case matchLabels s of
                           Some kvs \<Rightarrow> [] @ label_clauses kvs
                         | None \<Rightarrow> [])
                  in (case matchExpressions s of
                        None \<Rightarrow> Inr selectors
                      | Some es \<Rightarrow>
                          if es \<noteq> [] then expressions_loop es selectors
                          else Inr selectors))))"

subsection \<open>execute\_module\<close>

definition execute_module :: "cluster \<Rightarrow> params \<Rightarrow> result run" where
  "execute_module c p =
     (let label_selector = join '','' (label_selectors p) in
      seq (if truthy (name p) \<and> label_selector \<noteq> []
           then fail ''Only one of name or label_selectors can be provided''
           else ret ())
      (\<lambda>_. seq (get_api_client c)
      (\<lambda>_. seq (find_resource c (kind p) (api_version p))
      (\<lambda>resource. seq (find_resource c ''Pod'' ''v1'')
      (\<lambda>v1_pods.
         seq (if ''log'' \<notin> set (subresources resource) then
                (case name p of
                   None \<Rightarrow> fail ''name must be provided for resources that do not support the log subresource''
                 | Some n \<Rightarrow>
                     if n = [] then
                       fail ''name must be provided for resources that do not support the log subresource''
                     else
                       seq (resource_get c resource n (namespace p))
                       (\<lambda>inst. seq ([], extract_selectors inst)
                       (\<lambda>clauses. ret (v1_pods, join '','' clauses))))
              else ret (resource, label_selector))
         (\<lambda>(resource, label_selector).
         seq (if label_selector \<noteq> [] then
                seq (resource_list c v1_pods (namespace p) label_selector)
                (\<lambda>items.
                   (case items of
                      [] \<Rightarrow> fail (''No pods in namespace '' @ fmt (namespace p) @
                                  '' matched selector '' @ label_selector)
                    | item # _ \<Rightarrow> ret (v1_pods, Some (metadata_name item))))
              else ret (resource, name p))
         (\<lambda>(resource, name).
         seq (resource_log_get c resource name (namespace p)
                (if truthy (container p) then [(''container'', fmt (container p))] else []))
         (\<lambda>log.
            ret \<lparr>changed = False, log = log, log_lines = split (CHR 0x0A) log\<rparr>))))))))"

subsection \<open>The clause syntax of the specification\<close>

text \<open>
  The operators the data model of the specification allows in a
  \<^verbatim>\<open>matchExpressions\<close> entry.
\<close>

definition supported_operator :: "string \<Rightarrow> bool" where
  "supported_operator op =
     (op = ''Exists'' \<or> op = ''DoesNotExist'' \<or> op = ''In'' \<or> op = ''NotIn'')"

text \<open>
  The clause of one entry in the words of the specification (section 4.2), to be
  compared with what \<open>expressions_loop\<close> appends: \<^verbatim>\<open>Exists\<close> gives the bare
  key, \<^verbatim>\<open>DoesNotExist\<close> gives \<^verbatim>\<open>!key\<close>, \<^verbatim>\<open>In\<close> and
  \<^verbatim>\<open>NotIn\<close> give \<^verbatim>\<open>key in (v1, v2, ...)\<close> and
  \<^verbatim>\<open>key notin (v1, v2, ...)\<close>.
\<close>

definition spec_clause :: "expression \<Rightarrow> string" where
  "spec_clause e =
     (if operator e = ''Exists'' then key e
      else if operator e = ''DoesNotExist'' then ''!'' @ key e
      else if operator e = ''In'' then key e @ '' in ('' @ join '', '' (values_list e) @ '')''
      else key e @ '' notin ('' @ join '', '' (values_list e) @ '')'')"

text \<open>The pairs and the entries of a selector, none when the attribute is missing.\<close>

definition labels_of :: "selector \<Rightarrow> (string \<times> string) list" where
  "labels_of s = (case matchLabels s of None \<Rightarrow> [] | Some kvs \<Rightarrow> kvs)"

definition expressions_of :: "selector \<Rightarrow> expression list" where
  "expressions_of s = (case matchExpressions s of None \<Rightarrow> [] | Some es \<Rightarrow> es)"

subsection \<open>Kinds of calls\<close>

fun is_get_by_name :: "call \<Rightarrow> bool" where
  "is_get_by_name (GetByName d n ns) = True"
| "is_get_by_name other = False"

fun is_list_by_selector :: "call \<Rightarrow> bool" where
  "is_list_by_selector (ListBySelector d ns sel) = True"
| "is_list_by_selector other = False"

fun is_log_get :: "call \<Rightarrow> bool" where
  "is_log_get (LogGet d n ns q) = True"
| "is_log_get other = False"

subsection \<open>Example data\<close>

text \<open>A Service that selects no Pods: its spec has no selector.\<close>

definition service_without_selector :: resource_instance where
  "service_without_selector =
     \<lparr>group = None, apiVersion = Some ''v1'', instance_kind = Some ''Service'',
      spec = Some \<lparr>selector = None\<rparr>\<rparr>"

definition instance_with :: "selector \<Rightarrow> resource_instance" where
  "instance_with s =
     \<lparr>group = None, apiVersion = Some ''apps/v1'', instance_kind = Some ''Deployment'',
      spec = Some \<lparr>selector = Some s\<rparr>\<rparr>"

text \<open>The selectors of the examples of the specification (section 8).\<close>

definition flat_selector :: selector where
  "flat_selector =
     \<lparr>entries = [(''app'', ''example'')], matchLabels = None, matchExpressions = None\<rparr>"

definition labels_and_exists_selector :: selector where
  "labels_and_exists_selector =
     \<lparr>entries = [], matchLabels = Some [(''a'', ''1'')],
      matchExpressions = Some [\<lparr>key = ''b'', operator = ''Exists'', values_list = []\<rparr>]\<rparr>"

definition in_selector :: selector where
  "in_selector =
     \<lparr>entries = [], matchLabels = None,
      matchExpressions = Some [\<lparr>key = ''c'', operator = ''In'', values_list = [''x'', ''y'']\<rparr>]\<rparr>"

definition bogus_selector :: selector where
  "bogus_selector =
     \<lparr>entries = [], matchLabels = None,
      matchExpressions = Some [\<lparr>key = ''d'', operator = ''Bogus'', values_list = []\<rparr>]\<rparr>"

definition empty_values_selector :: selector where
  "empty_values_selector =
     \<lparr>entries = [], matchLabels = None,
      matchExpressions = Some [\<lparr>key = ''c'', operator = ''NotIn'', values_list = []\<rparr>]\<rparr>"

text \<open>
  A selector whose \<^verbatim>\<open>matchLabels\<close> is there and holds nothing:
  \<^verbatim>\<open>{matchLabels: {}}\<close>. Read as a flat mapping it has the one entry
  \<^verbatim>\<open>matchLabels\<close>, whose value \<^verbatim>\<open>format\<close> renders as
  \<^verbatim>\<open>{}\<close>.
\<close>

definition empty_labels_selector :: selector where
  "empty_labels_selector =
     \<lparr>entries = [(''matchLabels'', ''{}'')], matchLabels = Some [],
      matchExpressions = None\<rparr>"

definition pod_descriptor :: descriptor where
  "pod_descriptor =
     \<lparr>group_version = ''v1'', resource_kind = ''Pod'', subresources = [''log'', ''status'']\<rparr>"

definition deployment_descriptor :: descriptor where
  "deployment_descriptor =
     \<lparr>group_version = ''apps/v1'', resource_kind = ''Deployment'',
      subresources = [''scale'', ''status'']\<rparr>"

definition example_deployment :: resource_instance where
  "example_deployment = instance_with flat_selector"

text \<open>
  A cluster with the namespace \<^verbatim>\<open>testing\<close>, the Deployment
  \<^verbatim>\<open>example\<close> in it, and the given Pods carrying the label
  \<^verbatim>\<open>app=example\<close>; each of them logs two lines.
\<close>

definition example_cluster :: "pod list \<Rightarrow> cluster" where
  "example_cluster running =
     \<lparr>api_client = None,
      resources = (\<lambda>k v.
        if k = ''Pod'' \<and> v = ''v1'' then Some pod_descriptor
        else if k = ''Deployment'' \<and> v = ''apps/v1'' then Some deployment_descriptor
        else None),
      get_named = (\<lambda>d n ns.
        if d = deployment_descriptor \<and> n = ''example'' \<and> ns = Some ''testing''
        then Inr example_deployment else Inl ''not found''),
      get_listed = (\<lambda>d ns sel.
        if d = pod_descriptor \<and> ns = Some ''testing'' \<and> sel = ''app=example''
        then Inr running else Inr []),
      log_fetch = (\<lambda>d n ns q.
        if d = pod_descriptor \<and> n \<in> set (map (\<lambda>item. Some (metadata_name item)) running)
           \<and> ns = Some ''testing''
        then Inr ''hello\<newline>world'' else Inl ''not found'')\<rparr>"

definition example_pod :: pod where
  "example_pod = \<lparr>metadata_name = ''example-1abcd''\<rparr>"

definition example_params :: "string \<Rightarrow> string \<Rightarrow> string option \<Rightarrow> string list \<Rightarrow> params" where
  "example_params k v n sels =
     \<lparr>kind = k, api_version = v, name = n, namespace = Some ''testing'', container = None,
      label_selectors = sels\<rparr>"

section \<open>Properties of extract\_selectors\<close>

lemma lower_In: "lower ''In'' = ''in''"
  by code_simp

lemma lower_NotIn: "lower ''NotIn'' = ''notin''"
  by code_simp

lemma expressions_loop_supported:
  "\<forall>e\<in>set es. supported_operator (operator e) \<Longrightarrow>
   expressions_loop es acc = Inr (acc @ map spec_clause es)"
proof (induction es arbitrary: acc)
  case Nil
  show ?case by simp
next
  case (Cons e es)
  then have rest: "\<And>acc. expressions_loop es acc = Inr (acc @ map spec_clause es)"
    by simp
  from Cons.prems have "supported_operator (operator e)" by simp
  then show ?case
    by (auto simp: supported_operator_def spec_clause_def rest lower_In lower_NotIn)
qed

lemma expressions_loop_unsupported:
  "\<forall>x\<in>set pre. supported_operator (operator x) \<Longrightarrow> \<not> supported_operator (operator e) \<Longrightarrow>
   expressions_loop (pre @ e # post) acc =
     Inl (Fail (''The k8s_log module does not support the '' @ lower (operator e) @
                '' matchExpression operator''))"
proof (induction pre arbitrary: acc)
  case Nil
  then show ?case by (simp add: supported_operator_def)
next
  case (Cons x pre)
  then have rest: "\<And>acc. expressions_loop (pre @ e # post) acc =
     Inl (Fail (''The k8s_log module does not support the '' @ lower (operator e) @
                '' matchExpression operator''))"
    by simp
  from Cons.prems have "supported_operator (operator x)" by simp
  then show ?case
    by (auto simp: supported_operator_def rest)
qed

lemma extract_structured:
  assumes "spec inst = Some sp" and "selector sp = Some s"
    and "populated_labels s \<or> populated_expressions s"
  shows "extract_selectors inst =
           expressions_loop (expressions_of s) (label_clauses (labels_of s))"
  using assms
  by (auto simp: extract_selectors_def populated_labels_def populated_expressions_def
        labels_of_def expressions_of_def label_clauses_def Let_def split: option.splits)

lemma in_clause_position:
  assumes "spec inst = Some sp" and "selector sp = Some s"
    and "matchExpressions s = Some (pre @ e # post)"
    and "operator e = ''In'' \<or> operator e = ''NotIn''"
    and "\<forall>x\<in>set (pre @ post). supported_operator (operator x)"
  shows "extract_selectors inst =
           Inr ((label_clauses (labels_of s) @ map spec_clause pre) @
                [key e @ (if operator e = ''In'' then '' in ('' else '' notin ('') @
                   join '', '' (values_list e) @ '')''] @
                map spec_clause post)"
proof -
  have pop: "populated_labels s \<or> populated_expressions s"
    using assms(3) by (simp add: populated_expressions_def)
  have es: "expressions_of s = pre @ e # post"
    using assms(3) by (simp add: expressions_of_def)
  have sup: "\<forall>x\<in>set (pre @ e # post). supported_operator (operator x)"
    using assms(4,5) by (auto simp: supported_operator_def)
  have "extract_selectors inst =
          Inr (label_clauses (labels_of s) @ map spec_clause (pre @ e # post))"
    using extract_structured [OF assms(1,2) pop] es expressions_loop_supported [OF sup]
    by simp
  moreover have "spec_clause e =
      key e @ (if operator e = ''In'' then '' in ('' else '' notin ('') @
        join '', '' (values_list e) @ '')''"
    using assms(4) by (auto simp: spec_clause_def)
  ultimately show ?thesis by simp
qed

lemma absent_selector_raises:
  "spec inst = Some sp \<Longrightarrow> selector sp = None \<Longrightarrow> extract_selectors inst = Inl TypeError"
  by (simp add: extract_selectors_def)

text \<open>
  C3. The specification asks that an instance whose spec has no selector makes the
  extraction fail with a descriptive message naming group/apiVersion and kind. The code
  builds that message with \<^verbatim>\<open>'/'.join(instance.group, instance.apiVersion)\<close>,
  a call of \<^verbatim>\<open>str.join\<close> with two arguments, which raises
  \<^verbatim>\<open>TypeError\<close> before \<^verbatim>\<open>self.fail\<close> is reached: for a Service
  without selector the extraction ends with that exception and no message.
\<close>

theorem missing_selector_raises_TypeError:
  "extract_selectors service_without_selector = Inl TypeError"
  by (simp add: extract_selectors_def service_without_selector_def)

text \<open>
  C6, as amended. When the selector is present, has no \<^verbatim>\<open>matchLabels\<close>
  attribute (it is missing or null) and its \<^verbatim>\<open>matchExpressions\<close> is missing
  or empty, the extraction succeeds and returns exactly one clause
  \<^verbatim>\<open>key=value\<close> for each entry of the selector read as a flat mapping, in
  iteration order, and nothing else.
\<close>

theorem flat_selector_clauses:
  assumes "spec inst = Some sp" and "selector sp = Some s"
    and "matchLabels s = None" and "expressions_of s = []"
  shows "extract_selectors inst = Inr (map (\<lambda>(k, v). k @ ''='' @ v) (entries s))"
  using assms
  by (auto simp: extract_selectors_def label_clauses_def populated_labels_def
        populated_expressions_def expressions_of_def split: option.splits)

theorem flat_selector_clauses_witness:
  "spec (instance_with flat_selector) = Some \<lparr>selector = Some flat_selector\<rparr>
   \<and> matchLabels flat_selector = None \<and> expressions_of flat_selector = []
   \<and> extract_selectors (instance_with flat_selector) = Inr [''app=example'']"
  using flat_selector_clauses
    [of "instance_with flat_selector" "\<lparr>selector = Some flat_selector\<rparr>" flat_selector]
  by (simp add: instance_with_def flat_selector_def expressions_of_def)

text \<open>
  C6, as stated, fails: a \<^verbatim>\<open>matchLabels\<close> that is there but holds no entry is
  not populated, and neither is a missing \<^verbatim>\<open>matchExpressions\<close>, yet the
  attribute counts as true, so the code does not read the selector as a flat mapping. It
  takes the other branch and returns no clause at all, where the flat reading has the
  one clause \<^verbatim>\<open>matchLabels={}\<close>.
\<close>

theorem empty_matchLabels_not_flat:
  "matchLabels empty_labels_selector = Some []
   \<and> labels_of empty_labels_selector = []
   \<and> expressions_of empty_labels_selector = []
   \<and> label_clauses (entries empty_labels_selector) = [''matchLabels={}'']
   \<and> extract_selectors (instance_with empty_labels_selector) = Inr []"
  by (simp add: empty_labels_selector_def instance_with_def labels_of_def expressions_of_def
        label_clauses_def extract_selectors_def populated_labels_def)

text \<open>
  C7. When \<^verbatim>\<open>matchLabels\<close> or \<^verbatim>\<open>matchExpressions\<close> is populated (and
  every operator is one of the four of the data model), the extraction returns the
  clauses \<^verbatim>\<open>key=value\<close> of \<^verbatim>\<open>matchLabels\<close> first, in iteration order,
  followed by one clause for each entry of \<^verbatim>\<open>matchExpressions\<close>, in the given
  order. For \<^verbatim>\<open>matchLabels={a:"1"}\<close> and
  \<^verbatim>\<open>matchExpressions=[{key:"b",operator:"Exists"}]\<close> this is
  \<^verbatim>\<open>["a=1", "b"]\<close> (the witness).
\<close>

theorem structured_selector_clauses:
  assumes "spec inst = Some sp" and "selector sp = Some s"
    and "populated_labels s \<or> populated_expressions s"
    and "\<forall>e\<in>set (expressions_of s). supported_operator (operator e)"
  shows "extract_selectors inst =
           Inr (map (\<lambda>(k, v). k @ ''='' @ v) (labels_of s) @
                map spec_clause (expressions_of s))"
  using assms
  by (simp add: extract_structured expressions_loop_supported label_clauses_def)

theorem structured_selector_clauses_witness:
  "populated_labels labels_and_exists_selector
   \<and> extract_selectors (instance_with labels_and_exists_selector) = Inr [''a=1'', ''b'']"
  using structured_selector_clauses
    [of "instance_with labels_and_exists_selector"
        "\<lparr>selector = Some labels_and_exists_selector\<rparr>" labels_and_exists_selector]
  by (simp add: instance_with_def labels_and_exists_selector_def populated_labels_def
        labels_of_def expressions_of_def supported_operator_def spec_clause_def)

text \<open>
  C8. An entry of \<^verbatim>\<open>matchExpressions\<close> with operator \<^verbatim>\<open>In\<close> or
  \<^verbatim>\<open>NotIn\<close> (the other entries having operators of the data model) contributes
  the clause \<^verbatim>\<open>key in (v1, v2, ...)\<close> or \<^verbatim>\<open>key notin (v1, v2, ...)\<close>:
  the operator in lower case, the values joined by a comma and a space, in parentheses.
  The clause stands at the place of the entry, after the clauses of
  \<^verbatim>\<open>matchLabels\<close> and of the entries before it. For
  \<^verbatim>\<open>matchExpressions=[{key:"c",operator:"In",values:["x","y"]}]\<close> the result
  is \<^verbatim>\<open>["c in (x, y)"]\<close> (the witness).
\<close>

theorem in_notin_clause:
  assumes "spec inst = Some sp" and "selector sp = Some s"
    and "matchExpressions s = Some (pre @ e # post)"
    and "operator e = ''In'' \<or> operator e = ''NotIn''"
    and "\<forall>x\<in>set (pre @ post). supported_operator (operator x)"
  shows "\<exists>before after.
           extract_selectors inst =
             Inr (before @
                  [key e @ (if operator e = ''In'' then '' in ('' else '' notin ('') @
                     join '', '' (values_list e) @ '')''] @
                  after) \<and>
           length before = length (labels_of s) + length pre \<and>
           length after = length post"
proof -
  let ?before = "label_clauses (labels_of s) @ map spec_clause pre"
  let ?after = "map spec_clause post"
  have "length ?before = length (labels_of s) + length pre"
    by (simp add: label_clauses_def)
  moreover have "length ?after = length post" by simp
  ultimately show ?thesis
    using in_clause_position [OF assms] by blast
qed

theorem in_notin_clause_witness:
  "matchExpressions in_selector
     = Some ([] @ \<lparr>key = ''c'', operator = ''In'', values_list = [''x'', ''y'']\<rparr> # [])
   \<and> extract_selectors (instance_with in_selector) = Inr [''c in (x, y)'']"
  using in_notin_clause
    [of "instance_with in_selector" "\<lparr>selector = Some in_selector\<rparr>" in_selector
        "[]" "\<lparr>key = ''c'', operator = ''In'', values_list = [''x'', ''y'']\<rparr>" "[]"]
  by (simp add: instance_with_def in_selector_def labels_of_def)

text \<open>
  C9. An entry of \<^verbatim>\<open>matchExpressions\<close> whose operator is none of
  \<^verbatim>\<open>Exists\<close>, \<^verbatim>\<open>DoesNotExist\<close>, \<^verbatim>\<open>In\<close>, \<^verbatim>\<open>NotIn\<close>
  makes the extraction fail, when the loop reaches it (the entries before it having
  operators of the four), with the message of the unsupported operator, which names the
  operator in lower case. For the operator \<^verbatim>\<open>Bogus\<close> the message names
  \<^verbatim>\<open>bogus\<close> (the witness).
\<close>

theorem unsupported_operator_fails:
  assumes "spec inst = Some sp" and "selector sp = Some s"
    and "matchExpressions s = Some (pre @ e # post)"
    and "\<forall>x\<in>set pre. supported_operator (operator x)"
    and "\<not> supported_operator (operator e)"
  shows "extract_selectors inst =
           Inl (Fail (''The k8s_log module does not support the '' @ lower (operator e) @
                      '' matchExpression operator''))"
proof -
  have pop: "populated_labels s \<or> populated_expressions s"
    using assms(3) by (simp add: populated_expressions_def)
  have es: "expressions_of s = pre @ e # post"
    using assms(3) by (simp add: expressions_of_def)
  show ?thesis
    using extract_structured [OF assms(1,2) pop] es
      expressions_loop_unsupported [OF assms(4,5)]
    by simp
qed

theorem unsupported_operator_fails_witness:
  "\<not> supported_operator ''Bogus''
   \<and> extract_selectors (instance_with bogus_selector) =
       Inl (Fail ''The k8s_log module does not support the bogus matchExpression operator'')"
proof -
  have low: "lower ''Bogus'' = ''bogus''" by code_simp
  show ?thesis
    using unsupported_operator_fails
      [of "instance_with bogus_selector" "\<lparr>selector = Some bogus_selector\<rparr>" bogus_selector
          "[]" "\<lparr>key = ''d'', operator = ''Bogus'', values_list = []\<rparr>" "[]"]
    by (simp add: instance_with_def bogus_selector_def supported_operator_def low)
qed

text \<open>
  C10. An entry with operator \<^verbatim>\<open>In\<close> or \<^verbatim>\<open>NotIn\<close> and an empty
  sequence of values does not make the extraction fail: it contributes the clause
  \<^verbatim>\<open>key in ()\<close>, respectively \<^verbatim>\<open>key notin ()\<close>, at the place of the
  entry.
\<close>

theorem empty_values_clause:
  assumes "spec inst = Some sp" and "selector sp = Some s"
    and "matchExpressions s = Some (pre @ e # post)"
    and "operator e = ''In'' \<or> operator e = ''NotIn''"
    and "values_list e = []"
    and "\<forall>x\<in>set (pre @ post). supported_operator (operator x)"
  shows "\<exists>before after.
           extract_selectors inst =
             Inr (before @
                  [key e @ (if operator e = ''In'' then '' in ()'' else '' notin ()'')] @
                  after) \<and>
           length before = length (labels_of s) + length pre \<and>
           length after = length post"
proof -
  let ?before = "label_clauses (labels_of s) @ map spec_clause pre"
  let ?after = "map spec_clause post"
  have "length ?before = length (labels_of s) + length pre"
    by (simp add: label_clauses_def)
  moreover have "length ?after = length post" by simp
  moreover have "extract_selectors inst =
      Inr (?before @
           [key e @ (if operator e = ''In'' then '' in ()'' else '' notin ()'')] @ ?after)"
    using in_clause_position [OF assms(1,2,3,4,6)] assms(5) by simp
  ultimately show ?thesis by blast
qed

theorem empty_values_clause_witness:
  "matchExpressions empty_values_selector
     = Some ([] @ \<lparr>key = ''c'', operator = ''NotIn'', values_list = []\<rparr> # [])
   \<and> extract_selectors (instance_with empty_values_selector) = Inr [''c notin ()'']"
  using empty_values_clause
    [of "instance_with empty_values_selector" "\<lparr>selector = Some empty_values_selector\<rparr>"
        empty_values_selector
        "[]" "\<lparr>key = ''c'', operator = ''NotIn'', values_list = []\<rparr>" "[]"]
  by (simp add: instance_with_def empty_values_selector_def labels_of_def)

section \<open>Properties of execute\_module\<close>

lemmas run_defs =
  get_api_client_def find_resource_def resource_get_def resource_list_def
  resource_log_get_def ret_def fail_def raise_def

lemmas example_defs =
  example_cluster_def example_params_def example_pod_def example_deployment_def
  instance_with_def flat_selector_def pod_descriptor_def deployment_descriptor_def

lemma seq_alt:
  "seq m f =
     (case snd m of
        Inl e \<Rightarrow> (fst m, Inl e)
      | Inr x \<Rightarrow> (fst m @ fst (f x), snd (f x)))"
  by (cases m; cases "snd m") (auto split: prod.splits)

lemma join_empty_iff: "join '','' xs = [] \<longleftrightarrow> xs = [] \<or> xs = [[]]"
  by (induction "'',''" xs rule: join.induct) auto

lemma example_deployment_clauses:
  "extract_selectors example_deployment = Inr [''app=example'']"
  by (simp add: extract_selectors_def example_deployment_def instance_with_def
        flat_selector_def populated_labels_def populated_expressions_def label_clauses_def)

text \<open>
  C1. End to end: for kind \<^verbatim>\<open>Deployment\<close>, name \<^verbatim>\<open>example\<close>,
  namespace \<^verbatim>\<open>testing\<close> (no label selectors, no container), on any cluster
  where the Deployment descriptor lacks the log subresource, the fetched Deployment has
  the flat selector \<^verbatim>\<open>{app: "example"}\<close>, the list of Pods in
  \<^verbatim>\<open>testing\<close> for \<^verbatim>\<open>app=example\<close> is the one item
  \<^verbatim>\<open>example-1abcd\<close>, and the log of that Pod is the two lines
  \<^verbatim>\<open>hello\<close> and \<^verbatim>\<open>world\<close>: the module succeeds with
  \<^verbatim>\<open>changed\<close> false, the log text, and the two lines.
\<close>

theorem deployment_end_to_end:
  assumes "kind p = ''Deployment''" and "name p = Some ''example''"
    and "namespace p = Some ''testing''" and "label_selectors p = []"
    and "container p = None"
    and "api_client c = None"
    and "resources c ''Deployment'' (api_version p) = Some d"
    and "''log'' \<notin> set (subresources d)"
    and "resources c ''Pod'' ''v1'' = Some v1_pods"
    and "''log'' \<in> set (subresources v1_pods)"
    and "get_named c d ''example'' (Some ''testing'') = Inr inst"
    and "spec inst = Some sp" and "selector sp = Some s"
    and "\<not> populated_labels s" and "\<not> populated_expressions s"
    and "entries s = [(''app'', ''example'')]"
    and "get_listed c v1_pods (Some ''testing'') ''app=example'' = Inr [item]"
    and "metadata_name item = ''example-1abcd''"
    and "log_fetch c v1_pods (Some ''example-1abcd'') (Some ''testing'') []
           = Inr ''hello\<newline>world''"
  shows "snd (execute_module c p) =
           Inr \<lparr>changed = False, log = ''hello\<newline>world'',
                log_lines = [''hello'', ''world'']\<rparr>"
proof -
  have ex: "extract_selectors inst = Inr [''app=example'']"
    using assms(12-16) by (simp add: extract_selectors_def label_clauses_def)
  show ?thesis
    using assms ex by (simp add: execute_module_def run_defs)
qed

theorem deployment_end_to_end_witness:
  "snd (execute_module (example_cluster [example_pod])
          (example_params ''Deployment'' ''apps/v1'' (Some ''example'') [])) =
     Inr \<lparr>changed = False, log = ''hello\<newline>world'', log_lines = [''hello'', ''world'']\<rparr>"
  using deployment_end_to_end
    [of "example_params ''Deployment'' ''apps/v1'' (Some ''example'') []"
        "example_cluster [example_pod]" deployment_descriptor pod_descriptor
        example_deployment "\<lparr>selector = Some flat_selector\<rparr>" flat_selector example_pod]
  by (simp add: example_defs populated_labels_def populated_expressions_def)

text \<open>
  C2, as amended. When \<^verbatim>\<open>name\<close> is set (not empty) and
  \<^verbatim>\<open>label_selectors\<close> is neither empty nor the one empty string (so that its
  comma-joined string is not empty), the module fails with the message that only one of
  name or label\_selectors can be provided, and has made no call at all: no client, no
  descriptor lookup, no get, list or log fetch.
\<close>

theorem name_and_selector_exclusive:
  assumes "truthy (name p)"
    and "label_selectors p \<noteq> []" and "label_selectors p \<noteq> ['''']"
  shows "execute_module c p =
           ([], Inl (Fail ''Only one of name or label_selectors can be provided''))"
proof -
  have "join '','' (label_selectors p) \<noteq> []"
    using assms(2,3) by (simp add: join_empty_iff)
  then show ?thesis
    using assms(1) by (simp add: execute_module_def fail_def)
qed

theorem name_and_selector_exclusive_witness:
  "truthy (Some ''example-1abcd'')
   \<and> execute_module (example_cluster [example_pod])
       (example_params ''Pod'' ''v1'' (Some ''example-1abcd'') [''app=example'']) =
     ([], Inl (Fail ''Only one of name or label_selectors can be provided''))"
  using name_and_selector_exclusive
    [of "example_params ''Pod'' ''v1'' (Some ''example-1abcd'') [''app=example'']"
        "example_cluster [example_pod]"]
  by (simp add: example_params_def)

text \<open>
  C2, as stated, fails: with \<^verbatim>\<open>name\<close> set and \<^verbatim>\<open>label_selectors\<close>
  the non-empty sequence of one empty string, the joined selector is empty, the check
  passes, and the module goes on to create the client, look up the descriptors and fetch
  the log of the named Pod.
\<close>

theorem blank_selector_not_rejected:
  "truthy (name (example_params ''Pod'' ''v1'' (Some ''example-1abcd'') ['''']))
   \<and> label_selectors (example_params ''Pod'' ''v1'' (Some ''example-1abcd'') ['''']) \<noteq> []
   \<and> execute_module (example_cluster [example_pod])
       (example_params ''Pod'' ''v1'' (Some ''example-1abcd'') ['''']) =
     ([GetApiClient, FindResource ''Pod'' ''v1'', FindResource ''Pod'' ''v1'',
       LogGet pod_descriptor (Some ''example-1abcd'') (Some ''testing'') []],
      Inr \<lparr>changed = False, log = ''hello\<newline>world'',
           log_lines = [''hello'', ''world'']\<rparr>)"
  by (simp add: execute_module_def run_defs example_defs)

text \<open>
  C4. When the client and both descriptors are there, the active label selector (the
  joined \<^verbatim>\<open>label_selectors\<close> for a resource with the log subresource, or the
  joined clauses extracted from the named instance for a resource without it) is not
  empty, and the list of Pods for the namespace and that selector has no item, the
  module fails with the message
  \<^verbatim>\<open>No pods in namespace <namespace> matched selector <selector>\<close>, the
  namespace as \<^verbatim>\<open>format\<close> renders it and the selector verbatim, and no log
  fetch is among its calls.
\<close>

theorem no_pods_matched:
  assumes "api_client c = None"
    and "resources c (kind p) (api_version p) = Some r"
    and "resources c ''Pod'' ''v1'' = Some v1_pods"
    and "(''log'' \<in> set (subresources r) \<and> \<not> truthy (name p) \<and>
          sel = join '','' (label_selectors p))
       \<or> (''log'' \<notin> set (subresources r) \<and> name p = Some n \<and> n \<noteq> [] \<and>
          join '','' (label_selectors p) = [] \<and>
          get_named c r n (namespace p) = Inr inst \<and>
          extract_selectors inst = Inr clauses \<and> sel = join '','' clauses)"
    and "sel \<noteq> []"
    and "get_listed c v1_pods (namespace p) sel = Inr []"
  shows "snd (execute_module c p) =
           Inl (Fail (''No pods in namespace '' @ fmt (namespace p) @
                      '' matched selector '' @ sel)) \<and>
         filter is_log_get (fst (execute_module c p)) = []"
  using assms(4)
proof
  assume "''log'' \<in> set (subresources r) \<and> \<not> truthy (name p) \<and>
          sel = join '','' (label_selectors p)"
  then show ?thesis
    using assms(1,2,3,5,6) by (simp add: execute_module_def run_defs Let_def)
next
  assume "''log'' \<notin> set (subresources r) \<and> name p = Some n \<and> n \<noteq> [] \<and>
          join '','' (label_selectors p) = [] \<and>
          get_named c r n (namespace p) = Inr inst \<and>
          extract_selectors inst = Inr clauses \<and> sel = join '','' clauses"
  then show ?thesis
    using assms(1,2,3,5,6) by (simp add: execute_module_def run_defs Let_def)
qed

theorem no_pods_matched_witness:
  "(snd (execute_module (example_cluster [])
          (example_params ''Pod'' ''v1'' None [''app=example''])) =
      Inl (Fail ''No pods in namespace testing matched selector app=example'')
    \<and> filter is_log_get (fst (execute_module (example_cluster [])
          (example_params ''Pod'' ''v1'' None [''app=example'']))) = [])
   \<and> (snd (execute_module (example_cluster [])
          (example_params ''Deployment'' ''apps/v1'' (Some ''example'') [])) =
      Inl (Fail ''No pods in namespace testing matched selector app=example'')
    \<and> filter is_log_get (fst (execute_module (example_cluster [])
          (example_params ''Deployment'' ''apps/v1'' (Some ''example'') []))) = [])"
proof -
  have given: "snd (execute_module (example_cluster [])
          (example_params ''Pod'' ''v1'' None [''app=example''])) =
      Inl (Fail ''No pods in namespace testing matched selector app=example'')
    \<and> filter is_log_get (fst (execute_module (example_cluster [])
          (example_params ''Pod'' ''v1'' None [''app=example'']))) = []"
    using no_pods_matched
      [of "example_cluster []" "example_params ''Pod'' ''v1'' None [''app=example'']"
          pod_descriptor pod_descriptor "''app=example''"]
    by (simp add: example_cluster_def example_params_def pod_descriptor_def)
  have derived: "snd (execute_module (example_cluster [])
          (example_params ''Deployment'' ''apps/v1'' (Some ''example'') [])) =
      Inl (Fail ''No pods in namespace testing matched selector app=example'')
    \<and> filter is_log_get (fst (execute_module (example_cluster [])
          (example_params ''Deployment'' ''apps/v1'' (Some ''example'') []))) = []"
    using no_pods_matched
      [of "example_cluster []" "example_params ''Deployment'' ''apps/v1'' (Some ''example'') []"
          deployment_descriptor pod_descriptor "''app=example''" "''example''"
          example_deployment "[''app=example'']"]
      example_deployment_clauses
    by (simp add: example_cluster_def example_params_def pod_descriptor_def
          deployment_descriptor_def)
  from given derived show ?thesis by simp
qed

text \<open>
  C5. When the client and both descriptors are there, the descriptor of the requested
  kind has the log subresource and \<^verbatim>\<open>label_selectors\<close> is empty, the calls of
  the module are the client creation, the two descriptor lookups and one log fetch on
  the requested resource with the given name and namespace: exactly one log fetch, no
  get by name, no list by selector.
\<close>

theorem direct_log_single_fetch:
  assumes "api_client c = None"
    and "resources c (kind p) (api_version p) = Some r"
    and "''log'' \<in> set (subresources r)"
    and "resources c ''Pod'' ''v1'' = Some v1_pods"
    and "label_selectors p = []"
  shows "fst (execute_module c p) =
           [GetApiClient, FindResource (kind p) (api_version p), FindResource ''Pod'' ''v1'',
            LogGet r (name p) (namespace p)
              (if truthy (container p) then [(''container'', fmt (container p))] else [])] \<and>
         length (filter is_log_get (fst (execute_module c p))) = 1 \<and>
         filter is_get_by_name (fst (execute_module c p)) = [] \<and>
         filter is_list_by_selector (fst (execute_module c p)) = []"
proof -
  have tr: "fst (execute_module c p) =
           [GetApiClient, FindResource (kind p) (api_version p), FindResource ''Pod'' ''v1'',
            LogGet r (name p) (namespace p)
              (if truthy (container p) then [(''container'', fmt (container p))] else [])]"
    using assms
    by (simp add: execute_module_def run_defs seq_alt del: seq.simps split: sum.splits)
  show ?thesis unfolding tr by simp
qed

theorem direct_log_single_fetch_witness:
  "fst (execute_module (example_cluster [example_pod])
          (example_params ''Pod'' ''v1'' (Some ''example-1abcd'') [])) =
     [GetApiClient, FindResource ''Pod'' ''v1'', FindResource ''Pod'' ''v1'',
      LogGet pod_descriptor (Some ''example-1abcd'') (Some ''testing'') []]
   \<and> length (filter is_log_get (fst (execute_module (example_cluster [example_pod])
          (example_params ''Pod'' ''v1'' (Some ''example-1abcd'') [])))) = 1"
  using direct_log_single_fetch
    [of "example_cluster [example_pod]"
        "example_params ''Pod'' ''v1'' (Some ''example-1abcd'') []"
        pod_descriptor pod_descriptor]
  by (simp add: example_cluster_def example_params_def pod_descriptor_def)

end
